theory Spec2Isabelle
  imports Complex_Main
begin

section \<open>The tables of models.py\<close>

text \<open>
  Each mapped class is a record holding one row, the primary key included. The columns
  declared \<open>Float\<close> (\<open>Pedido.preco\<close>, \<open>ItemPedido.preco_unitario\<close>) are modelled
  by exact rational numbers: a price is the decimal number the client sent, and sums and
  products are taken without rounding. The columns \<open>Integer\<close> are unbounded integers,
  the columns \<open>String\<close> are strings.
\<close>

record Usuario =
  usuario_id :: int
  usuario_nome :: string
  usuario_email :: string
  usuario_senha :: string
  usuario_ativo :: bool
  usuario_admin :: bool

record Pedido =
  pedido_id :: int
  pedido_status :: string
  pedido_usuario :: int
  pedido_preco :: rat

record ItemPedido =
  item_id :: int
  item_quantidade :: int
  item_sabor :: string
  item_tamanho :: string
  item_preco_unitario :: rat
  item_pedido :: int

text \<open>
  The database: one list of rows per table, in insertion order. A handler that commits
  returns the new database; a handler that raises returns only the error, so whatever it
  did to the session before raising is lost with the session, as it is in the source,
  where nothing is written before \<open>session.commit()\<close>.
\<close>

record banco =
  usuarios :: "Usuario list"
  pedidos :: "Pedido list"
  itens_pedido :: "ItemPedido list"

definition banco_vazio :: banco where
  "banco_vazio = \<lparr>usuarios = [], pedidos = [], itens_pedido = []\<rparr>"

text \<open>
  The key of a new row. The engine is SQLite and the key columns are plain
  \<open>Integer\<close> primary keys, so a new row gets one more than the largest key in use,
  and 1 in an empty table.
\<close>

fun maior_id :: "int list \<Rightarrow> int" where
  "maior_id [] = 0"
| "maior_id (k # ks) = max k (maior_id ks)"

definition novo_id :: "int list \<Rightarrow> int" where
  "novo_id ks = maior_id ks + 1"

text \<open>The failures a handler can end with: the two \<open>HTTPException\<close>s the routes
  raise, told apart by status code and detail; Python's own \<open>AttributeError\<close> on
  \<open>None\<close>, which carries the name of the attribute that was read; and the
  \<open>OverflowError\<close> of the database driver.\<close>

datatype detalhe =
    Pedido_Nao_Encontrado
  | Pedido_Nao_Existe
  | Item_Do_Pedido_Nao_Existe
  | Sem_Autorizacao
  | Email_Ja_Cadastrado

datatype erro =
    HTTPException nat detalhe
  | AttributeError string
  | OverflowError

text \<open>SQLite holds an integer in 64 bits, signed. When a row is written with an integer
  outside that range in an \<open>Integer\<close> column, the driver raises \<open>OverflowError\<close> instead
  of executing the insert; nothing was committed before, so nothing is stored.\<close>

definition em_faixa :: "int \<Rightarrow> bool" where
  "em_faixa n \<longleftrightarrow> - (2 ^ 63) \<le> n \<and> n < 2 ^ 63"

section \<open>Pedido and its relationship\<close>

text \<open>\<open>session.query(Pedido).filter(Pedido.id == k).first()\<close> and the same query on
  \<open>ItemPedido\<close>: the first row with that key, or \<open>None\<close>.\<close>

definition buscar_pedido :: "banco \<Rightarrow> int \<Rightarrow> Pedido option" where
  "buscar_pedido s k = find (\<lambda>p. pedido_id p = k) (pedidos s)"

definition buscar_item :: "banco \<Rightarrow> int \<Rightarrow> ItemPedido option" where
  "buscar_item s k = find (\<lambda>i. item_id i = k) (itens_pedido s)"

text \<open>\<open>Pedido.itens\<close>, the relationship through the foreign key
  \<open>ItemPedido.pedido\<close>: the rows of \<open>itens_pedido\<close> that name this order. The
  relationship is loaded when it is first read. The session is made in a module that is
  not among the sources; it is taken to be SQLAlchemy's default session, which flushes
  pending inserts and deletes before it queries, so the relationship is always read from
  the database as the handler has changed it so far.\<close>

definition itens :: "banco \<Rightarrow> Pedido \<Rightarrow> ItemPedido list" where
  "itens s p = filter (\<lambda>i. item_pedido i = pedido_id p) (itens_pedido s)"

text \<open>\<open>sum(item.preco_unitario * item.quantidade for item in self.itens)\<close>: Python's
  \<open>sum\<close> starts at 0 and adds from the left.\<close>

definition soma_itens :: "ItemPedido list \<Rightarrow> rat" where
  "soma_itens xs = foldl (+) 0 (map (\<lambda>i. item_preco_unitario i * of_int (item_quantidade i)) xs)"

definition calcular_preco :: "banco \<Rightarrow> Pedido \<Rightarrow> Pedido" where
  "calcular_preco s p = p\<lparr>pedido_preco := soma_itens (itens s p)\<rparr>"

text \<open>Committing a changed order writes its columns to the row with its key.\<close>

definition gravar_pedido :: "banco \<Rightarrow> Pedido \<Rightarrow> banco" where
  "gravar_pedido s p =
     s\<lparr>pedidos := map (\<lambda>q. if pedido_id q = pedido_id p then p else q) (pedidos s)\<rparr>"

section \<open>The routes of order\_routes.py\<close>

text \<open>The request bodies (\<open>PedidoSchema\<close>, \<open>ItemPedidoSchema\<close>) carry the fields
  the handlers read. A response is modelled by the values it carries; its message text is
  left out.\<close>

record PedidoSchema =
  ps_usuario :: int

record ItemPedidoSchema =
  is_quantidade :: int
  is_sabor :: string
  is_tamanho :: string
  is_preco_unitario :: rat

text \<open>The test every guarded route makes: \<open>not usuario.admin and usuario.id != pedido.usuario\<close>.\<close>

definition sem_autorizacao :: "Usuario \<Rightarrow> Pedido \<Rightarrow> bool" where
  "sem_autorizacao usuario pedido \<longleftrightarrow>
     \<not> usuario_admin usuario \<and> usuario_id usuario \<noteq> pedido_usuario pedido"

text \<open>\<open>criar_pedido\<close>: the handler does not receive the caller; the owner is the
  \<open>usuario\<close> field of the body, written to the column \<open>usuario\<close> by
  \<open>session.commit()\<close>, which raises when the number does not fit the column. The handler
  returns the key of the new order.\<close>

definition criar_pedido :: "PedidoSchema \<Rightarrow> banco \<Rightarrow> erro + (int \<times> banco)" where
  "criar_pedido pedido_schema s =
     (let novo_pedido = \<lparr>pedido_id = novo_id (map pedido_id (pedidos s)),
                         pedido_status = ''PENDENTE'',
                         pedido_usuario = ps_usuario pedido_schema,
                         pedido_preco = 0\<rparr>
      in if \<not> em_faixa (pedido_usuario novo_pedido) then Inl OverflowError
         else Inr (pedido_id novo_pedido, s\<lparr>pedidos := pedidos s @ [novo_pedido]\<rparr>))"

definition cancelar_pedido :: "int \<Rightarrow> Usuario \<Rightarrow> banco \<Rightarrow> erro + (Pedido \<times> banco)" where
  "cancelar_pedido id_pedido usuario s =
     (case buscar_pedido s id_pedido of
        None \<Rightarrow> Inl (HTTPException 400 Pedido_Nao_Encontrado)
      | Some pedido \<Rightarrow>
          if sem_autorizacao usuario pedido then Inl (HTTPException 401 Sem_Autorizacao)
          else let pedido' = pedido\<lparr>pedido_status := ''CANCELADO''\<rparr>
               in Inr (pedido', gravar_pedido s pedido'))"

definition finalizar_pedido :: "int \<Rightarrow> Usuario \<Rightarrow> banco \<Rightarrow> erro + (Pedido \<times> banco)" where
  "finalizar_pedido id_pedido usuario s =
     (case buscar_pedido s id_pedido of
        None \<Rightarrow> Inl (HTTPException 400 Pedido_Nao_Encontrado)
      | Some pedido \<Rightarrow>
          if sem_autorizacao usuario pedido then Inl (HTTPException 401 Sem_Autorizacao)
          else let pedido' = pedido\<lparr>pedido_status := ''FINALIZADO''\<rparr>
               in Inr (pedido', gravar_pedido s pedido'))"

text \<open>\<open>visualizar_pedido\<close> writes nothing: it answers with \<open>len(pedido.itens)\<close> and
  the order.\<close>

definition visualizar_pedido :: "int \<Rightarrow> Usuario \<Rightarrow> banco \<Rightarrow> erro + (nat \<times> Pedido)" where
  "visualizar_pedido id_pedido usuario s =
     (case buscar_pedido s id_pedido of
        None \<Rightarrow> Inl (HTTPException 400 Pedido_Nao_Encontrado)
      | Some pedido \<Rightarrow>
          if sem_autorizacao usuario pedido then Inl (HTTPException 401 Sem_Autorizacao)
          else Inr (length (itens s pedido), pedido))"

text \<open>\<open>listar_pedidos\<close> is for administrators only; \<open>listar_pedidos_usuario\<close> answers
  with the caller's own orders.\<close>

definition listar_pedidos :: "Usuario \<Rightarrow> banco \<Rightarrow> erro + Pedido list" where
  "listar_pedidos usuario s =
     (if \<not> usuario_admin usuario then Inl (HTTPException 401 Sem_Autorizacao)
      else Inr (pedidos s))"

definition listar_pedidos_usuario :: "Usuario \<Rightarrow> banco \<Rightarrow> Pedido list" where
  "listar_pedidos_usuario usuario s =
     filter (\<lambda>p. pedido_usuario p = usuario_id usuario) (pedidos s)"

text \<open>\<open>adicionar_item_pedido\<close> answers with \<open>item_id\<close> and \<open>preco_pedido\<close>. The new
  item is written when \<open>calcular_preco\<close> reads the relationship, after the two tests; the
  write raises when \<open>quantidade\<close> does not fit the column.\<close>

definition adicionar_item_pedido ::
  "int \<Rightarrow> ItemPedidoSchema \<Rightarrow> Usuario \<Rightarrow> banco \<Rightarrow> erro + ((int \<times> rat) \<times> banco)" where
  "adicionar_item_pedido id_pedido item_pedido_schema usuario s =
     (case buscar_pedido s id_pedido of
        None \<Rightarrow> Inl (HTTPException 400 Pedido_Nao_Existe)
      | Some pedido \<Rightarrow>
          if sem_autorizacao usuario pedido then Inl (HTTPException 401 Sem_Autorizacao)
          else let item_pedido = \<lparr>item_id = novo_id (map item_id (itens_pedido s)),
                                   item_quantidade = is_quantidade item_pedido_schema,
                                   item_sabor = is_sabor item_pedido_schema,
                                   item_tamanho = is_tamanho item_pedido_schema,
                                   item_preco_unitario = is_preco_unitario item_pedido_schema,
                                   item_pedido = id_pedido\<rparr>
               in if \<not> em_faixa (item_quantidade item_pedido) then Inl OverflowError
                  else let s1 = s\<lparr>itens_pedido := itens_pedido s @ [item_pedido]\<rparr>;
                           pedido' = calcular_preco s1 pedido
                       in Inr ((item_id item_pedido, pedido_preco pedido'),
                               gravar_pedido s1 pedido'))"

text \<open>\<open>remover_item_pedido\<close>. Both queries use the key of the item,
  \<open>id_item_pedido\<close>: the order is the one whose own key is that number. Where that
  order does not exist, \<open>pedido\<close> is \<open>None\<close>, and reading \<open>pedido.usuario\<close> or calling
  \<open>pedido.calcular_preco()\<close> raises \<open>AttributeError\<close>; \<open>and\<close> does not evaluate its second
  operand for an administrator. It answers with \<open>len(pedido.itens)\<close> and the order.\<close>

definition remover_item_pedido :: "int \<Rightarrow> Usuario \<Rightarrow> banco \<Rightarrow> erro + ((nat \<times> Pedido) \<times> banco)" where
  "remover_item_pedido id_item_pedido usuario s =
     (let item_pedido = buscar_item s id_item_pedido;
          pedido = buscar_pedido s id_item_pedido
      in case item_pedido of
           None \<Rightarrow> Inl (HTTPException 400 Item_Do_Pedido_Nao_Existe)
         | Some item \<Rightarrow>
             (case pedido of
                None \<Rightarrow>
                  if \<not> usuario_admin usuario then Inl (AttributeError ''usuario'')
                  else Inl (AttributeError ''calcular_preco'')
              | Some ped \<Rightarrow>
                  if sem_autorizacao usuario ped then Inl (HTTPException 401 Sem_Autorizacao)
                  else let s1 = s\<lparr>itens_pedido :=
                                      filter (\<lambda>i. item_id i \<noteq> item_id item) (itens_pedido s)\<rparr>;
                           ped' = calcular_preco s1 ped;
                           s2 = gravar_pedido s1 ped'
                       in Inr ((length (itens s2 ped'), ped'), s2)))"

text \<open>The database a request leaves behind: the one committed, or the one it started
  from when the handler raised.\<close>

definition banco_apos :: "banco \<Rightarrow> erro + ('a \<times> banco) \<Rightarrow> banco" where
  "banco_apos s r = (case r of Inl e \<Rightarrow> s | Inr (x, s') \<Rightarrow> s')"

section \<open>Properties of a database\<close>

text \<open>Every item names an order that exists.\<close>

definition integridade :: "banco \<Rightarrow> bool" where
  "integridade s \<longleftrightarrow>
     list_all (\<lambda>i. item_pedido i \<in> set (map pedido_id (pedidos s))) (itens_pedido s)"

text \<open>The stored total of an order is the sum over its current items.\<close>

definition total_correto :: "banco \<Rightarrow> Pedido \<Rightarrow> bool" where
  "total_correto s p \<longleftrightarrow> pedido_preco p = soma_itens (itens s p)"

section \<open>auth\_routes.py\<close>

text \<open>\<open>bcrypt_context\<close> is the password library's object. Its \<open>hash\<close> draws a salt
  on each call, here an argument of its own; what the two functions compute is left open.\<close>

record CryptContext =
  cc_hash :: "string \<Rightarrow> string \<Rightarrow> string"
  cc_verify :: "string \<Rightarrow> string \<Rightarrow> bool"

record UsuarioSchema =
  us_nome :: string
  us_email :: string
  us_senha :: string
  us_ativo :: bool
  us_admin :: bool

definition buscar_usuario_email :: "banco \<Rightarrow> string \<Rightarrow> Usuario option" where
  "buscar_usuario_email s email = find (\<lambda>u. usuario_email u = email) (usuarios s)"

text \<open>\<open>autenticar_usuario\<close> returns \<open>False\<close> on both failures and the user otherwise;
  \<open>None\<close> stands for \<open>False\<close>.\<close>

definition autenticar_usuario :: "CryptContext \<Rightarrow> string \<Rightarrow> string \<Rightarrow> banco \<Rightarrow> Usuario option" where
  "autenticar_usuario bcrypt_context email senha s =
     (case buscar_usuario_email s email of
        None \<Rightarrow> None
      | Some usuario \<Rightarrow>
          if \<not> cc_verify bcrypt_context senha (usuario_senha usuario) then None
          else Some usuario)"

definition criar_conta :: "CryptContext \<Rightarrow> string \<Rightarrow> UsuarioSchema \<Rightarrow> banco \<Rightarrow> erro + (unit \<times> banco)" where
  "criar_conta bcrypt_context sal usuario_schema s =
     (case buscar_usuario_email s (us_email usuario_schema) of
        Some usuario \<Rightarrow> Inl (HTTPException 400 Email_Ja_Cadastrado)
      | None \<Rightarrow>
          let senha_criptografada = cc_hash bcrypt_context sal (us_senha usuario_schema);
              novo_usuario = \<lparr>usuario_id = novo_id (map usuario_id (usuarios s)),
                              usuario_nome = us_nome usuario_schema,
                              usuario_email = us_email usuario_schema,
                              usuario_senha = senha_criptografada,
                              usuario_ativo = us_ativo usuario_schema,
                              usuario_admin = us_admin usuario_schema\<rparr>
          in Inr ((), s\<lparr>usuarios := usuarios s @ [novo_usuario]\<rparr>))"

subsection \<open>Tokens\<close>

text \<open>Python's \<open>str\<close> on an integer: decimal digits, most significant first, with a
  leading minus sign for a negative number.\<close>

definition digito :: "nat \<Rightarrow> char" where
  "digito d = char_of (48 + d)"

function str_nat :: "nat \<Rightarrow> string" where
  "str_nat n = (if n < 10 then [digito n] else str_nat (n div 10) @ [digito (n mod 10)])"
  by pat_completeness auto
termination
  by (relation "measure id") auto

declare str_nat.simps [simp del]

definition py_str :: "int \<Rightarrow> string" where
  "py_str i = (if i < 0 then CHR ''-'' # str_nat (nat (- i)) else str_nat (nat i))"

text \<open>The settings \<open>main.py\<close> reads from the environment.\<close>

record config =
  SECRET_KEY :: string
  ALGORITHM :: string
  ACCESS_TOKEN_EXPIRE_MINUTES :: int

text \<open>The claims \<open>dic_info\<close> are a dictionary from names to a text or an instant.
  Time is counted in whole seconds, the unit in which a token carries \<open>exp\<close>.\<close>

datatype valor = Texto string | Instante int

type_synonym dic = "(string \<times> valor) list"

text \<open>\<open>jwt.encode\<close> belongs to the token library: a token carries the claims and a
  signature over them under the key and the algorithm. The signing function is a
  parameter.\<close>

record 'a jwt =
  jwt_claims :: dic
  jwt_assinatura :: 'a

definition jwt_encode :: "(dic \<Rightarrow> string \<Rightarrow> string \<Rightarrow> 'a) \<Rightarrow> dic \<Rightarrow> string \<Rightarrow> string \<Rightarrow> 'a jwt" where
  "jwt_encode assinar claims key algorithm =
     \<lparr>jwt_claims = claims, jwt_assinatura = assinar claims key algorithm\<rparr>"

text \<open>\<open>criar_token\<close>, with the clock reading \<open>agora\<close> and the lifetime in seconds.\<close>

definition criar_token ::
  "(dic \<Rightarrow> string \<Rightarrow> string \<Rightarrow> 'a) \<Rightarrow> config \<Rightarrow> int \<Rightarrow> int \<Rightarrow> int \<Rightarrow> 'a jwt" where
  "criar_token assinar cfg agora id_usuario duracao_token =
     (let data_expiracao = agora + duracao_token;
          dic_info = [(''sub'', Texto (py_str id_usuario)), (''exp'', Instante data_expiracao)]
      in jwt_encode assinar dic_info (SECRET_KEY cfg) (ALGORITHM cfg))"

text \<open>The default lifetime, \<open>timedelta(minutes=ACCESS_TOKEN_EXPIRE_MINUTES)\<close>.\<close>

definition duracao_padrao :: "config \<Rightarrow> int" where
  "duracao_padrao cfg = 60 * ACCESS_TOKEN_EXPIRE_MINUTES cfg"

text \<open>Reading a decimal integer back: an optional minus sign, then one or more digits.\<close>

definition valor_digito :: "char \<Rightarrow> nat option" where
  "valor_digito c =
     (let n = (of_char c :: nat) in if 48 \<le> n \<and> n \<le> 57 then Some (n - 48) else None)"

fun ler_nat :: "nat \<Rightarrow> string \<Rightarrow> nat option" where
  "ler_nat acc [] = Some acc"
| "ler_nat acc (c # cs) =
     (case valor_digito c of None \<Rightarrow> None | Some d \<Rightarrow> ler_nat (acc * 10 + d) cs)"

definition py_int :: "string \<Rightarrow> int option" where
  "py_int t =
     (case t of
        [] \<Rightarrow> None
      | c # cs \<Rightarrow>
          if c = CHR ''-'' then (if cs = [] then None else map_option (\<lambda>n. - int n) (ler_nat 0 cs))
          else map_option int (ler_nat 0 t))"

datatype auth_error = InvalidCredential | Expired

text \<open>
  Modelled from the spec: the function that validates a token, which the routes import
  from a module that is not among the sources. The spec's \<open>validate\<close> verifies signature
  and expiration: it fails with \<open>InvalidCredential\<close> if the signature does not verify, the
  token is malformed or lacks the subject field, and with \<open>Expired\<close> if the current time is
  at or after the embedded expiration; otherwise it yields the user id.
\<close>

definition validate ::
  "(dic \<Rightarrow> string \<Rightarrow> string \<Rightarrow> 'a) \<Rightarrow> config \<Rightarrow> int \<Rightarrow> 'a jwt \<Rightarrow> auth_error + int" where
  "validate assinar cfg agora token =
     (if jwt_assinatura token \<noteq> assinar (jwt_claims token) (SECRET_KEY cfg) (ALGORITHM cfg)
      then Inl InvalidCredential
      else case map_of (jwt_claims token) ''sub'' of
             Some (Texto t) \<Rightarrow>
               (case py_int t of
                  None \<Rightarrow> Inl InvalidCredential
                | Some id_usuario \<Rightarrow>
                    (case map_of (jwt_claims token) ''exp'' of
                       Some (Instante e) \<Rightarrow> if e \<le> agora then Inl Expired else Inr id_usuario
                     | Some (Texto x) \<Rightarrow> Inl InvalidCredential
                     | None \<Rightarrow> Inr id_usuario))
           | _ \<Rightarrow> Inl InvalidCredential)"

section \<open>Example data\<close>

text \<open>Three callers: the owner of the example order, an administrator, and a third
  user who is neither.\<close>

definition usuario_dono :: Usuario where
  "usuario_dono = \<lparr>usuario_id = 5, usuario_nome = ''Ana'', usuario_email = ''ana@pizza.br'',
     usuario_senha = ''$2b$ana'', usuario_ativo = True, usuario_admin = False\<rparr>"

definition usuario_gerente :: Usuario where
  "usuario_gerente = \<lparr>usuario_id = 1, usuario_nome = ''Rui'', usuario_email = ''rui@pizza.br'',
     usuario_senha = ''$2b$rui'', usuario_ativo = True, usuario_admin = True\<rparr>"

definition usuario_outro :: Usuario where
  "usuario_outro = \<lparr>usuario_id = 7, usuario_nome = ''Bia'', usuario_email = ''bia@pizza.br'',
     usuario_senha = ''$2b$bia'', usuario_ativo = True, usuario_admin = False\<rparr>"

text \<open>The database after the first three steps of the worked example: order 1 of user 5
  with items 1 and 2.\<close>

definition banco_dois_itens :: banco where
  "banco_dois_itens =
     \<lparr>usuarios = [],
      pedidos = [\<lparr>pedido_id = 1, pedido_status = ''PENDENTE'', pedido_usuario = 5,
                  pedido_preco = 124 / 5\<rparr>],
      itens_pedido =
        [\<lparr>item_id = 1, item_quantidade = 2, item_sabor = ''Margherita'', item_tamanho = ''Grande'',
           item_preco_unitario = 99 / 10, item_pedido = 1\<rparr>,
         \<lparr>item_id = 2, item_quantidade = 1, item_sabor = ''Pepperoni'', item_tamanho = ''Pequena'',
           item_preco_unitario = 5, item_pedido = 1\<rparr>]\<rparr>"

text \<open>A token signature for the examples: the claims' names with the key and the
  algorithm.\<close>

definition assinar_exemplo :: "dic \<Rightarrow> string \<Rightarrow> string \<Rightarrow> string" where
  "assinar_exemplo claims key algorithm = key @ algorithm @ concat (map fst claims)"

definition config_exemplo :: config where
  "config_exemplo = \<lparr>SECRET_KEY = ''segredo'', ALGORITHM = ''HS256'',
     ACCESS_TOKEN_EXPIRE_MINUTES = 30\<rparr>"



text \<open>Two orders that are already closed: one finalized, one cancelled.\<close>

definition banco_encerrado :: banco where
  "banco_encerrado =
     \<lparr>usuarios = [],
      pedidos = [\<lparr>pedido_id = 1, pedido_status = ''FINALIZADO'', pedido_usuario = 5,
                  pedido_preco = 0\<rparr>,
                 \<lparr>pedido_id = 2, pedido_status = ''CANCELADO'', pedido_usuario = 7,
                  pedido_preco = 0\<rparr>],
      itens_pedido = []\<rparr>"

text \<open>Two orders of user 5 and one item: item 1 belongs to order 2. It is the database
  after two calls of \<open>criar_pedido\<close> for user 5 and one \<open>adicionar_item_pedido\<close> on
  order 2.\<close>

definition banco_falha :: banco where
  "banco_falha =
     \<lparr>usuarios = [],
      pedidos = [\<lparr>pedido_id = 1, pedido_status = ''PENDENTE'', pedido_usuario = 5,
                  pedido_preco = 0\<rparr>,
                 \<lparr>pedido_id = 2, pedido_status = ''PENDENTE'', pedido_usuario = 5,
                  pedido_preco = 10\<rparr>],
      itens_pedido =
        [\<lparr>item_id = 1, item_quantidade = 1, item_sabor = ''Margherita'', item_tamanho = ''Grande'',
           item_preco_unitario = 10, item_pedido = 2\<rparr>]\<rparr>"

text \<open>A stand-in for the password library: the hash is the two-character salt followed by
  the password reversed, and \<open>verify\<close> compares what follows the salt.\<close>

definition bcrypt_exemplo :: CryptContext where
  "bcrypt_exemplo = \<lparr>cc_hash = (\<lambda>sal senha. sal @ rev senha),
                      cc_verify = (\<lambda>senha h. drop 2 h = rev senha)\<rparr>"

text \<open>A database with one user who is not active, and a registration for the same
  e-mail address.\<close>

definition banco_usuarios :: banco where
  "banco_usuarios =
     \<lparr>usuarios = [\<lparr>usuario_id = 1, usuario_nome = ''Ana'', usuario_email = ''ana@pizza.br'',
                   usuario_senha = ''x7321azzip'', usuario_ativo = False, usuario_admin = False\<rparr>],
      pedidos = [], itens_pedido = []\<rparr>"

definition cadastro_exemplo :: UsuarioSchema where
  "cadastro_exemplo = \<lparr>us_nome = ''Ana'', us_email = ''ana@pizza.br'', us_senha = ''pizza123'',
     us_ativo = False, us_admin = False\<rparr>"

section \<open>Lookups, keys and the relationship\<close>

lemmas rotas_defs =
  criar_pedido_def novo_id_def adicionar_item_pedido_def remover_item_pedido_def
  cancelar_pedido_def finalizar_pedido_def visualizar_pedido_def
  buscar_pedido_def buscar_item_def sem_autorizacao_def calcular_preco_def itens_def
  soma_itens_def gravar_pedido_def banco_apos_def em_faixa_def Let_def

lemmas exemplos_defs =
  banco_vazio_def banco_dois_itens_def usuario_dono_def usuario_gerente_def usuario_outro_def

lemma buscar_pedido_id: "buscar_pedido s k = Some p \<Longrightarrow> pedido_id p = k"
  by (auto simp: buscar_pedido_def find_Some_iff)

lemma buscar_item_id: "buscar_item s k = Some i \<Longrightarrow> item_id i = k"
  by (auto simp: buscar_item_def find_Some_iff)

lemma find_gravar:
  "pedido_id p' = k \<Longrightarrow>
   find (\<lambda>q. pedido_id q = k) (map (\<lambda>q. if pedido_id q = k then p' else q) xs)
     = map_option (\<lambda>q. p') (find (\<lambda>q. pedido_id q = k) xs)"
  by (induction xs) auto

lemma buscar_gravar:
  "buscar_pedido s (pedido_id p') = Some p \<Longrightarrow>
   buscar_pedido (gravar_pedido s p') (pedido_id p') = Some p'"
  by (simp add: buscar_pedido_def gravar_pedido_def find_gravar)

lemma maior_id_ge: "k \<in> set ks \<Longrightarrow> k \<le> maior_id ks"
  by (induction ks) auto

lemma novo_id_fresco: "novo_id ks \<notin> set ks"
  using maior_id_ge [of "novo_id ks" ks] by (auto simp: novo_id_def)

lemma find_snoc:
  "find P (xs @ [y]) =
     (case find P xs of None \<Rightarrow> (if P y then Some y else None) | Some x \<Rightarrow> Some x)"
  by (induction xs) auto

lemma buscar_pedido_novo:
  assumes a: "pedido_id p = novo_id (map pedido_id (pedidos s))"
  shows "buscar_pedido (s\<lparr>pedidos := pedidos s @ [p]\<rparr>) (pedido_id p) = Some p"
proof -
  have "pedido_id p \<notin> set (map pedido_id (pedidos s))"
    using novo_id_fresco [of "map pedido_id (pedidos s)"] a by simp
  then have "find (\<lambda>q. pedido_id q = pedido_id p) (pedidos s) = None"
    by (auto simp: find_None_iff image_iff)
  then show ?thesis by (simp add: buscar_pedido_def find_snoc)
qed

lemma itens_novo_vazio:
  assumes "integridade s" and "pedido_id p \<notin> set (map pedido_id (pedidos s))"
  shows "filter (\<lambda>i. item_pedido i = pedido_id p) (itens_pedido s) = []"
proof -
  have "\<forall>i \<in> set (itens_pedido s). item_pedido i \<in> set (map pedido_id (pedidos s))"
    using assms(1) by (simp add: integridade_def list_all_iff)
  with assms(2) have "\<forall>i \<in> set (itens_pedido s). item_pedido i \<noteq> pedido_id p"
    by metis
  then show ?thesis by (simp add: filter_empty_conv)
qed


section \<open>The worked example\<close>

text \<open>
  Claim C1. On an empty database, with a caller who is the owner (user 5) or an
  administrator: creating an order for user 5 gives order 1; adding an item with quantity
  2 and unit price 9.90 gives item 1 and the total 19.80; adding an item with quantity 1
  and unit price 5.00 gives item 2 and the total 24.80; removing item 1 answers with a
  remaining item count of 1 and the order with total 5.00. Each total is also the one
  stored in the database after the step.
\<close>

theorem cenario_exemplo:
  assumes aut: "usuario_admin u \<or> usuario_id u = 5"
  shows "\<exists>s1 s2 s3 s4 p.
     criar_pedido \<lparr>ps_usuario = 5\<rparr> banco_vazio = Inr (1, s1) \<and>
     adicionar_item_pedido 1
       \<lparr>is_quantidade = 2, is_sabor = sa, is_tamanho = ta, is_preco_unitario = 99 / 10\<rparr> u s1
       = Inr ((1, 99 / 5), s2) \<and>
     map pedido_preco (pedidos s2) = [99 / 5] \<and>
     adicionar_item_pedido 1
       \<lparr>is_quantidade = 1, is_sabor = sb, is_tamanho = tb, is_preco_unitario = 5\<rparr> u s2
       = Inr ((2, 124 / 5), s3) \<and>
     map pedido_preco (pedidos s3) = [124 / 5] \<and>
     remover_item_pedido 1 u s3 = Inr ((1, p), s4) \<and>
     pedido_preco p = 5 \<and>
     pedidos s4 = [p] \<and> map item_id (itens_pedido s4) = [2]"
  using aut by (auto simp add: banco_vazio_def rotas_defs)

theorem cenario_exemplo_witness:
  "usuario_id usuario_dono = 5 \<and>
   (\<exists>s1 s2 s3 s4 p.
     criar_pedido \<lparr>ps_usuario = 5\<rparr> banco_vazio = Inr (1, s1) \<and>
     adicionar_item_pedido 1
       \<lparr>is_quantidade = 2, is_sabor = ''Margherita'', is_tamanho = ''Grande'',
        is_preco_unitario = 99 / 10\<rparr> usuario_dono s1
       = Inr ((1, 99 / 5), s2) \<and>
     map pedido_preco (pedidos s2) = [99 / 5] \<and>
     adicionar_item_pedido 1
       \<lparr>is_quantidade = 1, is_sabor = ''Pepperoni'', is_tamanho = ''Pequena'',
        is_preco_unitario = 5\<rparr> usuario_dono s2
       = Inr ((2, 124 / 5), s3) \<and>
     map pedido_preco (pedidos s3) = [124 / 5] \<and>
     remover_item_pedido 1 usuario_dono s3 = Inr ((1, p), s4) \<and>
     pedido_preco p = 5 \<and>
     pedidos s4 = [p] \<and> map item_id (itens_pedido s4) = [2])"
proof -
  have h: "usuario_admin usuario_dono \<or> usuario_id usuario_dono = 5"
    by (simp add: usuario_dono_def)
  show ?thesis
    using cenario_exemplo [OF h, of "''Margherita''" "''Grande''" "''Pepperoni''" "''Pequena''"]
    by (simp add: usuario_dono_def)
qed

section \<open>Existence before authorization\<close>





section \<open>Status changes\<close>

text \<open>
  Claim C7. For every existing order, whatever its current status, a cancel by an
  administrator or the owner stores and returns the order with status CANCELADO, and a
  finalize stores and returns it with status FINALIZADO. Neither handler reads the status
  the order has.
\<close>

theorem transicoes_livres:
  assumes "buscar_pedido s k = Some p" and "usuario_admin u \<or> usuario_id u = pedido_usuario p"
  shows "cancelar_pedido k u s
           = Inr (p\<lparr>pedido_status := ''CANCELADO''\<rparr>,
                  gravar_pedido s (p\<lparr>pedido_status := ''CANCELADO''\<rparr>))
       \<and> buscar_pedido (banco_apos s (cancelar_pedido k u s)) k
           = Some (p\<lparr>pedido_status := ''CANCELADO''\<rparr>)
       \<and> finalizar_pedido k u s
           = Inr (p\<lparr>pedido_status := ''FINALIZADO''\<rparr>,
                  gravar_pedido s (p\<lparr>pedido_status := ''FINALIZADO''\<rparr>))
       \<and> buscar_pedido (banco_apos s (finalizar_pedido k u s)) k
           = Some (p\<lparr>pedido_status := ''FINALIZADO''\<rparr>)"
proof -
  have k: "pedido_id p = k" using assms(1) by (rule buscar_pedido_id)
  have g: "buscar_pedido (gravar_pedido s (p\<lparr>pedido_status := st\<rparr>)) k
             = Some (p\<lparr>pedido_status := st\<rparr>)" for st
    using buscar_gravar [of s "p\<lparr>pedido_status := st\<rparr>" p] assms(1) k by simp
  have a: "\<not> sem_autorizacao u p" using assms(2) by (auto simp: sem_autorizacao_def)
  show ?thesis
    using assms(1) a g by (simp add: cancelar_pedido_def finalizar_pedido_def banco_apos_def Let_def)
qed

theorem transicoes_livres_witness:
  "buscar_pedido banco_encerrado 1
     = Some \<lparr>pedido_id = 1, pedido_status = ''FINALIZADO'', pedido_usuario = 5, pedido_preco = 0\<rparr> \<and>
   usuario_id usuario_dono = 5 \<and>
   buscar_pedido (banco_apos banco_encerrado (cancelar_pedido 1 usuario_dono banco_encerrado)) 1
     = Some \<lparr>pedido_id = 1, pedido_status = ''CANCELADO'', pedido_usuario = 5, pedido_preco = 0\<rparr> \<and>
   buscar_pedido banco_encerrado 2
     = Some \<lparr>pedido_id = 2, pedido_status = ''CANCELADO'', pedido_usuario = 7, pedido_preco = 0\<rparr> \<and>
   usuario_admin usuario_gerente \<and>
   buscar_pedido (banco_apos banco_encerrado (finalizar_pedido 2 usuario_gerente banco_encerrado)) 2
     = Some \<lparr>pedido_id = 2, pedido_status = ''FINALIZADO'', pedido_usuario = 7, pedido_preco = 0\<rparr>"
proof -
  have b1: "buscar_pedido banco_encerrado 1
     = Some \<lparr>pedido_id = 1, pedido_status = ''FINALIZADO'', pedido_usuario = 5, pedido_preco = 0\<rparr>"
    by (simp add: banco_encerrado_def buscar_pedido_def)
  have b2: "buscar_pedido banco_encerrado 2
     = Some \<lparr>pedido_id = 2, pedido_status = ''CANCELADO'', pedido_usuario = 7, pedido_preco = 0\<rparr>"
    by (simp add: banco_encerrado_def buscar_pedido_def)
  have d: "usuario_admin usuario_dono \<or> usuario_id usuario_dono
             = pedido_usuario \<lparr>pedido_id = 1, pedido_status = ''FINALIZADO'', pedido_usuario = 5, pedido_preco = 0\<rparr>"
    by (simp add: usuario_dono_def)
  have g: "usuario_admin usuario_gerente \<or> usuario_id usuario_gerente
             = pedido_usuario \<lparr>pedido_id = 2, pedido_status = ''CANCELADO'', pedido_usuario = 7, pedido_preco = 0\<rparr>"
    by (simp add: usuario_gerente_def)
  have c: "buscar_pedido (banco_apos banco_encerrado (cancelar_pedido 1 usuario_dono banco_encerrado)) 1
     = Some (\<lparr>pedido_id = 1, pedido_status = ''FINALIZADO'', pedido_usuario = 5, pedido_preco = 0\<rparr>
              \<lparr>pedido_status := ''CANCELADO''\<rparr>)"
    using transicoes_livres [OF b1 d] by blast
  have f: "buscar_pedido (banco_apos banco_encerrado (finalizar_pedido 2 usuario_gerente banco_encerrado)) 2
     = Some (\<lparr>pedido_id = 2, pedido_status = ''CANCELADO'', pedido_usuario = 7, pedido_preco = 0\<rparr>
              \<lparr>pedido_status := ''FINALIZADO''\<rparr>)"
    using transicoes_livres [OF b2 g] by blast
  have u: "usuario_id usuario_dono = 5 \<and> usuario_admin usuario_gerente"
    by (simp add: usuario_dono_def usuario_gerente_def)
  show ?thesis using b1 b2 c f u by simp
qed

section \<open>Tokens\<close>

lemma valor_digito_digito: "d < 10 \<Longrightarrow> valor_digito (digito d) = Some d"
  by (simp add: valor_digito_def digito_def Let_def)

lemma ler_nat_snoc:
  "d < 10 \<Longrightarrow> ler_nat acc (cs @ [digito d]) = map_option (\<lambda>a. a * 10 + d) (ler_nat acc cs)"
  by (induction cs arbitrary: acc) (auto simp: valor_digito_digito split: option.splits)

lemma ler_nat_str_nat: "ler_nat 0 (str_nat n) = Some n"
proof (induction n rule: str_nat.induct)
  case (1 n)
  show ?case
  proof (cases "n < 10")
    case True
    then show ?thesis by (subst str_nat.simps) (simp add: valor_digito_digito)
  next
    case False
    with 1 have "ler_nat 0 (str_nat (n div 10)) = Some (n div 10)" by simp
    with False show ?thesis
      by (subst str_nat.simps) (simp add: ler_nat_snoc)
  qed
qed

lemma str_nat_nao_vazio: "str_nat n \<noteq> []"
  by (subst str_nat.simps) simp

lemma py_int_str_nat: "py_int (str_nat n) = Some (int n)"
proof (cases "str_nat n")
  case Nil
  then show ?thesis using str_nat_nao_vazio by simp
next
  case (Cons c cs)
  have l: "ler_nat 0 (c # cs) = Some n" using ler_nat_str_nat [of n] Cons by simp
  then have "valor_digito c \<noteq> None" by (auto split: option.splits)
  moreover have "valor_digito (CHR ''-'') = None" by (simp add: valor_digito_def)
  ultimately have "c \<noteq> CHR ''-''" by auto
  with l Cons show ?thesis by (simp add: py_int_def)
qed

lemma py_int_py_str: "py_int (py_str i) = Some i"
proof (cases "i < 0")
  case True
  then show ?thesis
    by (simp add: py_str_def py_int_def str_nat_nao_vazio ler_nat_str_nat)
next
  case False
  then show ?thesis by (simp add: py_str_def py_int_str_nat)
qed

text \<open>
  Claim C8. For every user id \<open>k\<close>, lifetime \<open>L\<close> and issue time \<open>t\<close>, the token
  \<open>criar_token\<close> issues carries the subject \<open>str(k)\<close> and the expiration \<open>t + L\<close>;
  validated at any time before \<open>t + L\<close> it yields \<open>k\<close>, and at \<open>t + L\<close> or later it
  fails with \<open>Expired\<close>.
\<close>

theorem token_validade:
  fixes assinar :: "dic \<Rightarrow> string \<Rightarrow> string \<Rightarrow> 'a"
  shows "map_of (jwt_claims (criar_token assinar cfg t k L)) ''sub'' = Some (Texto (py_str k)) \<and>
   map_of (jwt_claims (criar_token assinar cfg t k L)) ''exp'' = Some (Instante (t + L)) \<and>
   (agora < t + L \<longrightarrow> validate assinar cfg agora (criar_token assinar cfg t k L) = Inr k) \<and>
   (t + L \<le> agora \<longrightarrow> validate assinar cfg agora (criar_token assinar cfg t k L) = Inl Expired)"
  by (simp add: criar_token_def jwt_encode_def validate_def py_int_py_str Let_def)

theorem token_validade_witness:
  "(2799 :: int) < 1000 + 1800 \<and>
   validate assinar_exemplo config_exemplo 2799
     (criar_token assinar_exemplo config_exemplo 1000 42 1800) = Inr 42 \<and>
   (1000 :: int) + 1800 \<le> 2800 \<and>
   validate assinar_exemplo config_exemplo 2800
     (criar_token assinar_exemplo config_exemplo 1000 42 1800) = Inl Expired \<and>
   map_of (jwt_claims (criar_token assinar_exemplo config_exemplo 1000 42 1800)) ''sub''
     = Some (Texto ''42'')"
proof -
  have s: "py_str 42 = ''42''"
    by code_simp
  show ?thesis
    using token_validade [of assinar_exemplo config_exemplo 1000 42 1800 2799]
      token_validade [of assinar_exemplo config_exemplo 1000 42 1800 2800] s
    by simp
qed

section \<open>Creating an order\<close>

text \<open>
  Claim C10, as amended. \<open>criar_pedido\<close> takes the owner from the request body and looks
  at nothing else: the caller is not an argument of the handler and the table of users is
  not read. For every database and every integer \<open>x\<close> that fits the 64-bit column it
  returns a key that no order had, and the database then holds under that key an order
  with status PENDENTE, total 0 and owner \<open>x\<close>; users and items are untouched, and the new
  order has no items when every item in the database named an existing order. For any
  other \<open>x\<close> the handler ends in \<open>OverflowError\<close> and stores nothing.
\<close>

theorem criar_pedido_dono_livre:
  "(em_faixa x \<longrightarrow>
      (let k = novo_id (map pedido_id (pedidos s));
           novo = \<lparr>pedido_id = k, pedido_status = ''PENDENTE'', pedido_usuario = x,
                   pedido_preco = 0\<rparr>;
           s' = s\<lparr>pedidos := pedidos s @ [novo]\<rparr>
       in criar_pedido \<lparr>ps_usuario = x\<rparr> s = Inr (k, s') \<and>
          k \<notin> set (map pedido_id (pedidos s)) \<and>
          buscar_pedido s' k = Some novo \<and>
          usuarios s' = usuarios s \<and> itens_pedido s' = itens_pedido s \<and>
          (integridade s \<longrightarrow> itens s' novo = []))) \<and>
   (\<not> em_faixa x \<longrightarrow>
      criar_pedido \<lparr>ps_usuario = x\<rparr> s = Inl OverflowError \<and>
      banco_apos s (criar_pedido \<lparr>ps_usuario = x\<rparr> s) = s)"
proof (intro conjI impI)
  assume f: "em_faixa x"
  define k where "k = novo_id (map pedido_id (pedidos s))"
  define novo where "novo = \<lparr>pedido_id = k, pedido_status = ''PENDENTE'', pedido_usuario = x,
                   pedido_preco = 0 :: rat\<rparr>"
  define s' where "s' = s\<lparr>pedidos := pedidos s @ [novo]\<rparr>"
  have c: "criar_pedido \<lparr>ps_usuario = x\<rparr> s = Inr (k, s')"
    using f by (simp add: criar_pedido_def Let_def k_def novo_def s'_def)
  have fresco: "k \<notin> set (map pedido_id (pedidos s))"
    unfolding k_def by (rule novo_id_fresco)
  have nk: "pedido_id novo = k" by (simp add: novo_def)
  have b: "buscar_pedido s' k = Some novo"
    using buscar_pedido_novo [of novo s] nk by (simp add: s'_def k_def)
  have v: "integridade s \<longrightarrow> itens s' novo = []"
    using itens_novo_vazio [of s novo] fresco nk by (simp add: itens_def s'_def)
  have u: "usuarios s' = usuarios s \<and> itens_pedido s' = itens_pedido s"
    by (simp add: s'_def)
  show "let k = novo_id (map pedido_id (pedidos s));
           novo = \<lparr>pedido_id = k, pedido_status = ''PENDENTE'', pedido_usuario = x,
                   pedido_preco = 0\<rparr>;
           s' = s\<lparr>pedidos := pedidos s @ [novo]\<rparr>
       in criar_pedido \<lparr>ps_usuario = x\<rparr> s = Inr (k, s') \<and>
          k \<notin> set (map pedido_id (pedidos s)) \<and>
          buscar_pedido s' k = Some novo \<and>
          usuarios s' = usuarios s \<and> itens_pedido s' = itens_pedido s \<and>
          (integridade s \<longrightarrow> itens s' novo = [])"
    unfolding Let_def k_def [symmetric] novo_def [symmetric] s'_def [symmetric]
    using c fresco b u v by blast
next
  assume "\<not> em_faixa x"
  then show "criar_pedido \<lparr>ps_usuario = x\<rparr> s = Inl OverflowError"
    and "banco_apos s (criar_pedido \<lparr>ps_usuario = x\<rparr> s) = s"
    by (simp_all add: criar_pedido_def Let_def banco_apos_def)
qed

theorem criar_pedido_dono_livre_witness:
  "em_faixa 999 \<and> usuarios banco_dois_itens = [] \<and> integridade banco_dois_itens \<and>
   (\<exists>s'. criar_pedido \<lparr>ps_usuario = 999\<rparr> banco_dois_itens = Inr (2, s') \<and>
      buscar_pedido s' 2
        = Some \<lparr>pedido_id = 2, pedido_status = ''PENDENTE'', pedido_usuario = 999, pedido_preco = 0\<rparr> \<and>
      itens s' \<lparr>pedido_id = 2, pedido_status = ''PENDENTE'', pedido_usuario = 999, pedido_preco = 0\<rparr>
        = []) \<and>
   \<not> em_faixa (- 9223372036854775809) \<and>
   criar_pedido \<lparr>ps_usuario = - 9223372036854775809\<rparr> banco_dois_itens = Inl OverflowError"
proof -
  have f: "em_faixa 999" by (simp add: em_faixa_def)
  have nf: "\<not> em_faixa (- 9223372036854775809)" by (simp add: em_faixa_def)
  have i: "integridade banco_dois_itens"
    by (simp add: integridade_def banco_dois_itens_def)
  have u: "usuarios banco_dois_itens = []"
    by (simp add: banco_dois_itens_def)
  have n2: "novo_id (map pedido_id (pedidos banco_dois_itens)) = 2"
    by (simp add: novo_id_def banco_dois_itens_def)
  let ?novo = "\<lparr>pedido_id = novo_id (map pedido_id (pedidos banco_dois_itens)),
                 pedido_status = ''PENDENTE'', pedido_usuario = 999, pedido_preco = 0 :: rat\<rparr>"
  let ?s' = "banco_dois_itens\<lparr>pedidos := pedidos banco_dois_itens @ [?novo]\<rparr>"
  note t = criar_pedido_dono_livre [of 999 banco_dois_itens, unfolded Let_def]
  have a: "criar_pedido \<lparr>ps_usuario = 999\<rparr> banco_dois_itens
             = Inr (novo_id (map pedido_id (pedidos banco_dois_itens)), ?s')"
    and b: "buscar_pedido ?s' (novo_id (map pedido_id (pedidos banco_dois_itens))) = Some ?novo"
    and c: "itens ?s' ?novo = []"
    using t f i by blast+
  have o: "criar_pedido \<lparr>ps_usuario = - 9223372036854775809\<rparr> banco_dois_itens = Inl OverflowError"
    using criar_pedido_dono_livre [of "- 9223372036854775809" banco_dois_itens] nf by blast
  have e: "\<exists>s'. criar_pedido \<lparr>ps_usuario = 999\<rparr> banco_dois_itens = Inr (2, s') \<and>
      buscar_pedido s' 2
        = Some \<lparr>pedido_id = 2, pedido_status = ''PENDENTE'', pedido_usuario = 999, pedido_preco = 0\<rparr> \<and>
      itens s' \<lparr>pedido_id = 2, pedido_status = ''PENDENTE'', pedido_usuario = 999, pedido_preco = 0\<rparr>
        = []"
  proof (intro exI conjI)
    show "criar_pedido \<lparr>ps_usuario = 999\<rparr> banco_dois_itens = Inr (2, ?s')"
      using a by (simp add: n2)
    show "buscar_pedido ?s' 2
        = Some \<lparr>pedido_id = 2, pedido_status = ''PENDENTE'', pedido_usuario = 999, pedido_preco = 0\<rparr>"
      using b by (simp add: n2)
    show "itens ?s' \<lparr>pedido_id = 2, pedido_status = ''PENDENTE'', pedido_usuario = 999, pedido_preco = 0\<rparr>
        = []"
      using c by (simp add: n2)
  qed
  show ?thesis using f nf i u e o by simp
qed

text \<open>The claim as stated has the creation succeed for every integer. With the owner
  \<open>2 ^ 63\<close> it does not.\<close>

theorem criar_pedido_fora_da_faixa_counterexample:
  "criar_pedido \<lparr>ps_usuario = 9223372036854775808\<rparr> banco_vazio = Inl OverflowError \<and>
   banco_apos banco_vazio (criar_pedido \<lparr>ps_usuario = 9223372036854775808\<rparr> banco_vazio)
     = banco_vazio"
  by (simp add: criar_pedido_def em_faixa_def banco_apos_def Let_def)

section \<open>Removing an item\<close>

text \<open>
  Claim C9. \<open>remover_item_pedido\<close> looks the order up by the key of the item, not by
  the item's \<open>pedido\<close> column. Whenever an item with key \<open>k\<close> exists and no order has key
  \<open>k\<close>, the handler ends in an \<open>AttributeError\<close> on \<open>None\<close>, which is neither the 400 nor
  the 401: for a caller who is not an administrator it is raised by the owner test,
  reading \<open>pedido.usuario\<close>, and for an administrator by \<open>pedido.calcular_preco()\<close>.
  When an order with key \<open>k\<close> exists, it is that order whose owner decides the 401 and
  whose total is recomputed and returned, whatever order the item belongs to.
\<close>

theorem remover_consulta_pedido_errado:
  "(\<forall>i. buscar_item s k = Some i \<and> buscar_pedido s k = None \<longrightarrow>
      remover_item_pedido k u s
        = Inl (AttributeError (if usuario_admin u then ''calcular_preco'' else ''usuario''))) \<and>
   (\<forall>i p. buscar_item s k = Some i \<and> buscar_pedido s k = Some p \<longrightarrow>
      (sem_autorizacao u p \<longrightarrow>
         remover_item_pedido k u s = Inl (HTTPException 401 Sem_Autorizacao)) \<and>
      (\<not> sem_autorizacao u p \<longrightarrow>
         (\<exists>n s'. remover_item_pedido k u s
                   = Inr ((n, p\<lparr>pedido_preco :=
                                 soma_itens (filter (\<lambda>j. item_pedido j = k)
                                   (filter (\<lambda>j. item_id j \<noteq> k) (itens_pedido s)))\<rparr>), s'))))"
proof (intro conjI allI impI)
  fix i
  assume "buscar_item s k = Some i \<and> buscar_pedido s k = None"
  then show "remover_item_pedido k u s
        = Inl (AttributeError (if usuario_admin u then ''calcular_preco'' else ''usuario''))"
    by (simp add: remover_item_pedido_def)
next
  fix i p
  assume "buscar_item s k = Some i \<and> buscar_pedido s k = Some p" and "sem_autorizacao u p"
  then show "remover_item_pedido k u s = Inl (HTTPException 401 Sem_Autorizacao)"
    by (simp add: remover_item_pedido_def)
next
  fix i p
  assume a: "buscar_item s k = Some i \<and> buscar_pedido s k = Some p" and b: "\<not> sem_autorizacao u p"
  have "item_id i = k" and "pedido_id p = k"
    using a buscar_item_id buscar_pedido_id by auto
  with a b show "\<exists>n s'. remover_item_pedido k u s
                   = Inr ((n, p\<lparr>pedido_preco :=
                                 soma_itens (filter (\<lambda>j. item_pedido j = k)
                                   (filter (\<lambda>j. item_id j \<noteq> k) (itens_pedido s)))\<rparr>), s')"
    by (simp add: remover_item_pedido_def Let_def calcular_preco_def itens_def)
qed

theorem remover_consulta_pedido_errado_witness:
  "buscar_item banco_dois_itens 2 \<noteq> None \<and> buscar_pedido banco_dois_itens 2 = None \<and>
   remover_item_pedido 2 usuario_dono banco_dois_itens = Inl (AttributeError ''usuario'') \<and>
   remover_item_pedido 2 usuario_gerente banco_dois_itens = Inl (AttributeError ''calcular_preco'') \<and>
   map item_pedido (itens_pedido banco_falha) = [2] \<and>
   (\<exists>n s'. remover_item_pedido 1 usuario_dono banco_falha
      = Inr ((n, \<lparr>pedido_id = 1, pedido_status = ''PENDENTE'', pedido_usuario = 5,
                  pedido_preco = 0\<rparr>), s'))"
proof -
  let ?i2 = "\<lparr>item_id = 2, item_quantidade = 1, item_sabor = ''Pepperoni'', item_tamanho = ''Pequena'',
           item_preco_unitario = 5, item_pedido = 1\<rparr>"
  let ?i1 = "\<lparr>item_id = 1, item_quantidade = 1, item_sabor = ''Margherita'', item_tamanho = ''Grande'',
           item_preco_unitario = 10, item_pedido = 2\<rparr>"
  let ?p1 = "\<lparr>pedido_id = 1, pedido_status = ''PENDENTE'', pedido_usuario = 5, pedido_preco = 0 :: rat\<rparr>"
  have a: "buscar_item banco_dois_itens 2 = Some ?i2 \<and> buscar_pedido banco_dois_itens 2 = None"
    by (simp add: banco_dois_itens_def buscar_item_def buscar_pedido_def)
  have b: "buscar_item banco_falha 1 = Some ?i1 \<and> buscar_pedido banco_falha 1 = Some ?p1"
    by (simp add: banco_falha_def buscar_item_def buscar_pedido_def)
  have d: "\<not> sem_autorizacao usuario_dono ?p1"
    by (simp add: sem_autorizacao_def usuario_dono_def)
  have s: "soma_itens (filter (\<lambda>j. item_pedido j = 1)
             (filter (\<lambda>j. item_id j \<noteq> 1) (itens_pedido banco_falha))) = 0"
    by (simp add: banco_falha_def soma_itens_def)
  have m: "map item_pedido (itens_pedido banco_falha) = [2]"
    by (simp add: banco_falha_def)
  have g: "usuario_admin usuario_gerente \<and> \<not> usuario_admin usuario_dono"
    by (simp add: usuario_gerente_def usuario_dono_def)
  show ?thesis
    using remover_consulta_pedido_errado [of banco_dois_itens 2 usuario_dono]
      remover_consulta_pedido_errado [of banco_dois_itens 2 usuario_gerente]
      remover_consulta_pedido_errado [of banco_falha 1 usuario_dono]
      a b d s m g
    by auto
qed





section \<open>The stored total\<close>

text \<open>
  Claim C2. After every successful add-item and remove-item the stored total of every
  order is to equal the sum of quantity times unit price over its current items.
  \<open>remover_item_pedido\<close> does not keep this. From the empty database, two orders are
  created for user 5 and an item of price 10 is added to order 2: this is item 1. Removing
  item 1 as user 5 succeeds, recomputes order 1 (the order whose key is the item's key)
  and answers with a count of 0; order 2 has lost its only item and still has the stored
  total 10.
\<close>

theorem total_desatualizado_apos_remover:
  "(\<exists>s1 s2. criar_pedido \<lparr>ps_usuario = 5\<rparr> banco_vazio = Inr (1, s1) \<and>
            criar_pedido \<lparr>ps_usuario = 5\<rparr> s1 = Inr (2, s2) \<and>
            adicionar_item_pedido 2
              \<lparr>is_quantidade = 1, is_sabor = ''Margherita'', is_tamanho = ''Grande'',
               is_preco_unitario = 10\<rparr> usuario_dono s2
              = Inr ((1, 10), banco_falha)) \<and>
   remover_item_pedido 1 usuario_dono banco_falha
     = Inr ((0, \<lparr>pedido_id = 1, pedido_status = ''PENDENTE'', pedido_usuario = 5, pedido_preco = 0\<rparr>),
            banco_falha\<lparr>itens_pedido := []\<rparr>) \<and>
   buscar_pedido (banco_falha\<lparr>itens_pedido := []\<rparr>) 2
     = Some \<lparr>pedido_id = 2, pedido_status = ''PENDENTE'', pedido_usuario = 5, pedido_preco = 10\<rparr> \<and>
   itens (banco_falha\<lparr>itens_pedido := []\<rparr>)
     \<lparr>pedido_id = 2, pedido_status = ''PENDENTE'', pedido_usuario = 5, pedido_preco = 10\<rparr> = [] \<and>
   \<not> total_correto (banco_falha\<lparr>itens_pedido := []\<rparr>)
     \<lparr>pedido_id = 2, pedido_status = ''PENDENTE'', pedido_usuario = 5, pedido_preco = 10\<rparr>"
  by (simp add: rotas_defs exemplos_defs banco_falha_def total_correto_def)

section \<open>Accounts\<close>

text \<open>
  Claim C5. \<open>autenticar_usuario\<close> returns the same failure value when no user has the
  e-mail address and when the password does not verify against the stored hash, so the
  caller cannot tell the two apart from what is returned; when the password verifies it
  returns the user's record. (The failure value is Python's \<open>False\<close>, here \<open>None\<close>.)
\<close>

theorem autenticar_falhas_iguais:
  "(buscar_usuario_email s email = None \<longrightarrow> autenticar_usuario bc email senha s = None) \<and>
   (\<forall>usuario. buscar_usuario_email s email = Some usuario \<longrightarrow>
      (\<not> cc_verify bc senha (usuario_senha usuario) \<longrightarrow>
         autenticar_usuario bc email senha s = None) \<and>
      (cc_verify bc senha (usuario_senha usuario) \<longrightarrow>
         autenticar_usuario bc email senha s = Some usuario))"
  by (simp add: autenticar_usuario_def)

theorem autenticar_falhas_iguais_witness:
  "buscar_usuario_email banco_usuarios ''rui@pizza.br'' = None \<and>
   autenticar_usuario bcrypt_exemplo ''rui@pizza.br'' ''pizza123'' banco_usuarios = None \<and>
   buscar_usuario_email banco_usuarios ''ana@pizza.br'' \<noteq> None \<and>
   autenticar_usuario bcrypt_exemplo ''ana@pizza.br'' ''pizza124'' banco_usuarios = None \<and>
   autenticar_usuario bcrypt_exemplo ''ana@pizza.br'' ''pizza123'' banco_usuarios
     = Some \<lparr>usuario_id = 1, usuario_nome = ''Ana'', usuario_email = ''ana@pizza.br'',
              usuario_senha = ''x7321azzip'', usuario_ativo = False, usuario_admin = False\<rparr>"
proof -
  let ?ana = "\<lparr>usuario_id = 1, usuario_nome = ''Ana'', usuario_email = ''ana@pizza.br'',
              usuario_senha = ''x7321azzip'', usuario_ativo = False, usuario_admin = False\<rparr>"
  have n: "buscar_usuario_email banco_usuarios ''rui@pizza.br'' = None"
    by (simp add: buscar_usuario_email_def banco_usuarios_def)
  have a: "buscar_usuario_email banco_usuarios ''ana@pizza.br'' = Some ?ana"
    by (simp add: buscar_usuario_email_def banco_usuarios_def)
  have v: "cc_verify bcrypt_exemplo ''pizza123'' (usuario_senha ?ana)"
    by (simp add: bcrypt_exemplo_def)
  have w: "\<not> cc_verify bcrypt_exemplo ''pizza124'' (usuario_senha ?ana)"
    by (simp add: bcrypt_exemplo_def)
  show ?thesis
    using autenticar_falhas_iguais [of banco_usuarios "''rui@pizza.br''" bcrypt_exemplo "''pizza123''"]
      autenticar_falhas_iguais [of banco_usuarios "''ana@pizza.br''" bcrypt_exemplo "''pizza124''"]
      autenticar_falhas_iguais [of banco_usuarios "''ana@pizza.br''" bcrypt_exemplo "''pizza123''"]
      n a v w
    by auto
qed


lemma buscar_usuario_email_None:
  "buscar_usuario_email s e = None \<longleftrightarrow> (\<forall>u \<in> set (usuarios s). usuario_email u \<noteq> e)"
  by (auto simp: buscar_usuario_email_def find_None_iff)

lemma filter_email_vazio:
  "buscar_usuario_email s e = None \<Longrightarrow> filter (\<lambda>u. usuario_email u = e) (usuarios s) = []"
  by (simp add: buscar_usuario_email_None filter_empty_conv)

text \<open>
  Claim C6, as amended. \<open>criar_conta\<close> fails with the 400 of a duplicate e-mail exactly
  when some record, active or not, already has the given e-mail address, and succeeds
  otherwise. After a successful registration every further registration with the same
  address fails and changes nothing, and the table holds exactly one record with that
  address. The password is stored only as a salted one-way hash, never as plaintext: the
  record's password column is the library's hash of the plaintext under the salt of the
  call; it is not the plaintext, the hash being one-way at least in that it never returns
  the password it was given; and the password reaches the database through the hash
  alone, so that two passwords with the same hash leave the same database.
\<close>

theorem criar_conta_email_unico:
  "(criar_conta bc sal us s = Inl (HTTPException 400 Email_Ja_Cadastrado)
      \<longleftrightarrow> (\<exists>u \<in> set (usuarios s). usuario_email u = us_email us)) \<and>
   ((\<exists>s1. criar_conta bc sal us s = Inr ((), s1))
      \<longleftrightarrow> (\<forall>u \<in> set (usuarios s). usuario_email u \<noteq> us_email us)) \<and>
   (\<forall>s1. criar_conta bc sal us s = Inr ((), s1) \<longrightarrow>
      (\<forall>sal2 us2. us_email us2 = us_email us \<longrightarrow>
         criar_conta bc sal2 us2 s1 = Inl (HTTPException 400 Email_Ja_Cadastrado) \<and>
         banco_apos s1 (criar_conta bc sal2 us2 s1) = s1) \<and>
      length (filter (\<lambda>u. usuario_email u = us_email us) (usuarios s1)) = 1 \<and>
      buscar_usuario_email s1 (us_email us)
        = Some \<lparr>usuario_id = novo_id (map usuario_id (usuarios s)),
                 usuario_nome = us_nome us,
                 usuario_email = us_email us,
                 usuario_senha = cc_hash bc sal (us_senha us),
                 usuario_ativo = us_ativo us,
                 usuario_admin = us_admin us\<rparr> \<and>
      ((\<forall>senha. cc_hash bc sal senha \<noteq> senha) \<longrightarrow>
         map_option usuario_senha (buscar_usuario_email s1 (us_email us)) \<noteq> Some (us_senha us))) \<and>
   (\<forall>senha'. cc_hash bc sal senha' = cc_hash bc sal (us_senha us) \<longrightarrow>
      criar_conta bc sal (us\<lparr>us_senha := senha'\<rparr>) s = criar_conta bc sal us s)"
proof (intro conjI allI impI)
  show "criar_conta bc sal us s = Inl (HTTPException 400 Email_Ja_Cadastrado)
      \<longleftrightarrow> (\<exists>u \<in> set (usuarios s). usuario_email u = us_email us)"
    using buscar_usuario_email_None [of s "us_email us"]
    by (auto simp: criar_conta_def Let_def split: option.splits)
next
  show "(\<exists>s1. criar_conta bc sal us s = Inr ((), s1))
      \<longleftrightarrow> (\<forall>u \<in> set (usuarios s). usuario_email u \<noteq> us_email us)"
    using buscar_usuario_email_None [of s "us_email us"]
    by (auto simp: criar_conta_def Let_def split: option.splits)
next
  fix s1 sal2 and us2 :: UsuarioSchema
  assume a: "criar_conta bc sal us s = Inr ((), s1)" and e: "us_email us2 = us_email us"
  let ?novo = "\<lparr>usuario_id = novo_id (map usuario_id (usuarios s)),
                 usuario_nome = us_nome us,
                 usuario_email = us_email us,
                 usuario_senha = cc_hash bc sal (us_senha us),
                 usuario_ativo = us_ativo us,
                 usuario_admin = us_admin us\<rparr>"
  have n: "buscar_usuario_email s (us_email us) = None"
    and s1: "s1 = s\<lparr>usuarios := usuarios s @ [?novo]\<rparr>"
    using a by (auto simp: criar_conta_def Let_def split: option.splits)
  have b: "buscar_usuario_email s1 (us_email us) = Some ?novo"
    using n by (simp add: s1 buscar_usuario_email_def find_snoc)
  with e show "criar_conta bc sal2 us2 s1 = Inl (HTTPException 400 Email_Ja_Cadastrado)"
    by (simp add: criar_conta_def)
  then show "banco_apos s1 (criar_conta bc sal2 us2 s1) = s1"
    by (simp add: banco_apos_def)
next
  fix s1
  assume a: "criar_conta bc sal us s = Inr ((), s1)"
  let ?novo = "\<lparr>usuario_id = novo_id (map usuario_id (usuarios s)),
                 usuario_nome = us_nome us,
                 usuario_email = us_email us,
                 usuario_senha = cc_hash bc sal (us_senha us),
                 usuario_ativo = us_ativo us,
                 usuario_admin = us_admin us\<rparr>"
  have n: "buscar_usuario_email s (us_email us) = None"
    and s1: "s1 = s\<lparr>usuarios := usuarios s @ [?novo]\<rparr>"
    using a by (auto simp: criar_conta_def Let_def split: option.splits)
  show "length (filter (\<lambda>u. usuario_email u = us_email us) (usuarios s1)) = 1"
    using filter_email_vazio [OF n] by (simp add: s1)
  show "buscar_usuario_email s1 (us_email us) = Some ?novo"
    using n by (simp add: s1 buscar_usuario_email_def find_snoc)
next
  fix s1
  assume a: "criar_conta bc sal us s = Inr ((), s1)"
    and c: "\<forall>senha. cc_hash bc sal senha \<noteq> senha"
  let ?novo = "\<lparr>usuario_id = novo_id (map usuario_id (usuarios s)),
                 usuario_nome = us_nome us,
                 usuario_email = us_email us,
                 usuario_senha = cc_hash bc sal (us_senha us),
                 usuario_ativo = us_ativo us,
                 usuario_admin = us_admin us\<rparr>"
  have n: "buscar_usuario_email s (us_email us) = None"
    and s1: "s1 = s\<lparr>usuarios := usuarios s @ [?novo]\<rparr>"
    using a by (auto simp: criar_conta_def Let_def split: option.splits)
  have "buscar_usuario_email s1 (us_email us) = Some ?novo"
    using n by (simp add: s1 buscar_usuario_email_def find_snoc)
  with c show "map_option usuario_senha (buscar_usuario_email s1 (us_email us)) \<noteq> Some (us_senha us)"
    by simp
next
  fix senha'
  assume "cc_hash bc sal senha' = cc_hash bc sal (us_senha us)"
  then show "criar_conta bc sal (us\<lparr>us_senha := senha'\<rparr>) s = criar_conta bc sal us s"
    by (simp add: criar_conta_def Let_def split: option.splits)
qed

text \<open>The claim as stated ties the failure to an active record. The only record with the
  address is not active, and the registration fails all the same.\<close>

theorem criar_conta_inativo_counterexample:
  "criar_conta bcrypt_exemplo ''k9'' cadastro_exemplo banco_usuarios
     = Inl (HTTPException 400 Email_Ja_Cadastrado) \<and>
   filter (\<lambda>u. usuario_email u = us_email cadastro_exemplo \<and> usuario_ativo u)
     (usuarios banco_usuarios) = []"
  by (simp add: criar_conta_def buscar_usuario_email_def banco_usuarios_def cadastro_exemplo_def)

theorem criar_conta_email_unico_witness:
  "criar_conta bcrypt_exemplo ''x7'' cadastro_exemplo banco_vazio = Inr ((), banco_usuarios) \<and>
   criar_conta bcrypt_exemplo ''k9'' cadastro_exemplo banco_usuarios
     = Inl (HTTPException 400 Email_Ja_Cadastrado) \<and>
   length (filter (\<lambda>u. usuario_email u = us_email cadastro_exemplo) (usuarios banco_usuarios)) = 1 \<and>
   map_option usuario_senha (buscar_usuario_email banco_usuarios (us_email cadastro_exemplo))
     = Some ''x7321azzip'' \<and>
   (\<forall>senha. cc_hash bcrypt_exemplo ''x7'' senha \<noteq> senha) \<and>
   map_option usuario_senha (buscar_usuario_email banco_usuarios (us_email cadastro_exemplo))
     \<noteq> Some (us_senha cadastro_exemplo)"
proof -
  have c: "criar_conta bcrypt_exemplo ''x7'' cadastro_exemplo banco_vazio = Inr ((), banco_usuarios)"
    by (simp add: criar_conta_def buscar_usuario_email_def banco_vazio_def banco_usuarios_def
        cadastro_exemplo_def bcrypt_exemplo_def novo_id_def Let_def)
  have h: "cc_hash bcrypt_exemplo ''x7'' (us_senha cadastro_exemplo) = ''x7321azzip''"
    by (simp add: bcrypt_exemplo_def cadastro_exemplo_def)
  have w: "\<forall>senha. cc_hash bcrypt_exemplo ''x7'' senha \<noteq> senha"
  proof
    fix senha :: string
    have "length (''x7'' @ rev senha) \<noteq> length senha" by simp
    then have "''x7'' @ rev senha \<noteq> senha" by metis
    then show "cc_hash bcrypt_exemplo ''x7'' senha \<noteq> senha"
      by (simp add: bcrypt_exemplo_def)
  qed
  note t = criar_conta_email_unico [of bcrypt_exemplo "''x7''" cadastro_exemplo banco_vazio]
  have d: "\<forall>sal2 us2. us_email us2 = us_email cadastro_exemplo \<longrightarrow>
         criar_conta bcrypt_exemplo sal2 us2 banco_usuarios = Inl (HTTPException 400 Email_Ja_Cadastrado) \<and>
         banco_apos banco_usuarios (criar_conta bcrypt_exemplo sal2 us2 banco_usuarios) = banco_usuarios"
    and l: "length (filter (\<lambda>u. usuario_email u = us_email cadastro_exemplo) (usuarios banco_usuarios)) = 1"
    and b: "buscar_usuario_email banco_usuarios (us_email cadastro_exemplo)
        = Some \<lparr>usuario_id = novo_id (map usuario_id (usuarios banco_vazio)),
                 usuario_nome = us_nome cadastro_exemplo,
                 usuario_email = us_email cadastro_exemplo,
                 usuario_senha = cc_hash bcrypt_exemplo ''x7'' (us_senha cadastro_exemplo),
                 usuario_ativo = us_ativo cadastro_exemplo,
                 usuario_admin = us_admin cadastro_exemplo\<rparr>"
    and p: "map_option usuario_senha (buscar_usuario_email banco_usuarios (us_email cadastro_exemplo))
              \<noteq> Some (us_senha cadastro_exemplo)"
    using t c w by blast+
  have "criar_conta bcrypt_exemplo ''k9'' cadastro_exemplo banco_usuarios
     = Inl (HTTPException 400 Email_Ja_Cadastrado)"
    using d by blast
  then show ?thesis using c l b h w p by simp
qed

section \<open>The stored total after adding an item\<close>

text \<open>\<open>adicionar_item_pedido\<close> looks the order up by its own key, so the total it stores
  and returns is the sum over the order's items, the new one included.\<close>

lemma adicionar_item_total_correto:
  assumes "adicionar_item_pedido k it u s = Inr ((i, t), s')"
  shows "\<exists>p'. buscar_pedido s' k = Some p' \<and> total_correto s' p' \<and> t = pedido_preco p'"
proof -
  from assms obtain p where p: "buscar_pedido s k = Some p"
    by (auto simp: adicionar_item_pedido_def split: option.splits)
  have pk: "pedido_id p = k" using p by (rule buscar_pedido_id)
  define item where "item = \<lparr>item_id = novo_id (map item_id (itens_pedido s)),
                                   item_quantidade = is_quantidade it,
                                   item_sabor = is_sabor it,
                                   item_tamanho = is_tamanho it,
                                   item_preco_unitario = is_preco_unitario it,
                                   item_pedido = k\<rparr>"
  define s1 where "s1 = s\<lparr>itens_pedido := itens_pedido s @ [item]\<rparr>"
  define p' where "p' = p\<lparr>pedido_preco := soma_itens (itens s1 p)\<rparr>"
  have r: "s' = gravar_pedido s1 p'" and t: "t = pedido_preco p'"
    using assms p
    by (auto simp: adicionar_item_pedido_def Let_def calcular_preco_def s1_def p'_def item_def
        split: if_splits)
  have pk': "pedido_id p' = k" using pk by (simp add: p'_def)
  have "buscar_pedido s1 (pedido_id p') = Some p"
    using p pk' by (simp add: buscar_pedido_def s1_def)
  then have b: "buscar_pedido s' k = Some p'"
    using buscar_gravar [of s1 p' p] pk' by (simp add: r)
  have "itens s' p' = itens s1 p"
    by (simp add: itens_def r gravar_pedido_def pk pk')
  then have "total_correto s' p'"
    by (simp add: total_correto_def p'_def)
  with b t show ?thesis by blast
qed

end
